theory Spec2Isabelle
  imports Main "HOL-Library.Word"
begin

section \<open>The socket entry point \<open>bind\<close>\<close>

text \<open>
  The C being modelled (cloudlibc/src/libc/sys/socket/bind.c):
  \<^verbatim>\<open>
  int bind(int socket, const struct sockaddr *restrict addr, socklen_t addrlen) {
    __wasi_addr_port_t peer_addr;
    __wasi_errno_t error = sockaddr_to_wasi(addr, addrlen, &peer_addr);
    if (error != 0) { errno = error; return -1; }
    error = __wasi_sock_bind(socket, &peer_addr);
    if (error != 0) { errno = error; return -1; }
    return 0;
  }
  \<close>
  \<open>int\<close> is a 32-bit word read as two's complement (\<open>sint\<close>), \<open>socklen_t\<close> an
  unsigned 32-bit word and \<open>__wasi_errno_t\<close> the unsigned 16-bit word of the WASI
  interface (wasi/api.h).
\<close>

type_synonym c_int = "32 word"
type_synonym socklen_t = "32 word"
type_synonym wasi_errno_t = "16 word"

text \<open>
  The state a call can touch: the last-error slot \<open>errno\<close>, the state of the host behind
  the capability boundary, and (as an observation) the list of calls made to the host
  operation \<open>__wasi_sock_bind\<close>, oldest first.
\<close>

record ('h, 'p) process =
  errno :: c_int
  host :: 'h
  sock_bind_calls :: "(c_int \<times> 'p) list"

text \<open>
  The assignment \<open>errno = error\<close> is all the translation \<open>bind\<close> applies to an error
  code: the 16-bit unsigned code is converted to \<open>int\<close>.
\<close>

definition to_errno :: "wasi_errno_t \<Rightarrow> c_int" where
  "to_errno error = ucast error"


text \<open>
  \<open>bind\<close> takes the decoder \<open>sockaddr_to_wasi\<close> (common/net.h) and the host import
  \<open>__wasi_sock_bind\<close> as parameters: it is verified for every one. The decoder gets the
  address buffer, the declared length and the prior content of its out-parameter, and
  returns the error code with the new content of the out-parameter. The host operation
  gets the host state, the handle and the decoded address, and returns its error code with
  the new host state.
\<close>

type_synonym ('b, 'p) decoder = "'b \<Rightarrow> socklen_t \<Rightarrow> 'p \<Rightarrow> wasi_errno_t \<times> 'p"
type_synonym ('h, 'p) host_op = "'h \<Rightarrow> c_int \<Rightarrow> 'p \<Rightarrow> wasi_errno_t \<times> 'h"

definition wasi_sock_bind ::
  "('h, 'p) host_op \<Rightarrow> c_int \<Rightarrow> 'p \<Rightarrow> ('h, 'p) process \<Rightarrow> wasi_errno_t \<times> ('h, 'p) process" where
  "wasi_sock_bind hostop socket peer_addr w =
     (case hostop (host w) socket peer_addr of
        (error, h') \<Rightarrow>
          (error, w\<lparr>host := h', sock_bind_calls := sock_bind_calls w @ [(socket, peer_addr)]\<rparr>))"

text \<open>
  \<open>uninit\<close> is the indeterminate content of the local \<open>peer_addr\<close> before the decoder
  writes it.
\<close>

definition bind ::
  "('b, 'p) decoder \<Rightarrow> ('h, 'p) host_op \<Rightarrow> 'p \<Rightarrow> c_int \<Rightarrow> 'b \<Rightarrow> socklen_t \<Rightarrow>
     ('h, 'p) process \<Rightarrow> c_int \<times> ('h, 'p) process" where
  "bind sockaddr_to_wasi hostop uninit socket addr addrlen w =
     (case sockaddr_to_wasi addr addrlen uninit of
        (error, peer_addr) \<Rightarrow>
          if error \<noteq> 0 then (- 1, w\<lparr>errno := to_errno error\<rparr>)
          else (case wasi_sock_bind hostop socket peer_addr w of
                  (error, w') \<Rightarrow>
                    if error \<noteq> 0 then (- 1, w'\<lparr>errno := to_errno error\<rparr>)
                    else (0, w')))"


section \<open>The host's socket states\<close>

text \<open>
  Modelled from the spec: the host boundary behind \<open>__wasi_sock_bind\<close> is outside the
  repository. The spec gives each handle a state (UNBOUND, BOUND, LISTENING, CONNECTING,
  CONNECTED), has the host enforce the states, and makes \<open>bind\<close> valid only from UNBOUND:
  on any other state the host reports its state error and changes nothing. The number of
  that error is a parameter.
\<close>

datatype socket_state = UNBOUND | BOUND | LISTENING | CONNECTING | CONNECTED

type_synonym host_sockets = "c_int \<Rightarrow> socket_state"

definition host_sock_bind :: "wasi_errno_t \<Rightarrow> (host_sockets, 'p) host_op" where
  "host_sock_bind state_error h socket peer_addr =
     (if h socket = UNBOUND then (0, h(socket := BOUND)) else (state_error, h))"

section \<open>The address codec\<close>

text \<open>
  Modelled from the spec: the codec (\<open>sockaddr_to_wasi\<close> and its reverse, in common/net.h)
  is outside the two files covered here. The spec's buffer format is a fixed-width family tag
  followed by the family's payload: for IPv4 a 4-byte address and a 2-byte port, for IPv6
  a 16-byte address, a 2-byte port and a 4-byte scope id. The spec's scenario of an IPv4
  buffer of length 8 fixes the tag at 2 bytes. The tag values are not given by the spec:
  they are a parameter, as is the list of tags of families that are recognized but not
  supported.
\<close>

type_synonym byte = "8 word"

datatype codec_error = Invalid_argument | Af_not_supported

datatype typed_address =
    Inet4 "byte list" "byte list"
  | Inet6 "byte list" "byte list" "byte list"

record family_tags =
  inet4_tag :: "byte list"
  inet6_tag :: "byte list"
  unsupported_tags :: "byte list list"

definition header_size :: nat where
  "header_size = 2"

definition inet4_size :: nat where
  "inet4_size = header_size + 4 + 2"

definition inet6_size :: nat where
  "inet6_size = header_size + 16 + 2 + 4"

definition slice :: "nat \<Rightarrow> nat \<Rightarrow> 'a list \<Rightarrow> 'a list" where
  "slice off n xs = take n (drop off xs)"

text \<open>
  Modelled from the spec: the tag determines the layout, so a typed address is valid when
  each field has the width of its family.
\<close>

fun valid_typed :: "typed_address \<Rightarrow> bool" where
  "valid_typed (Inet4 a p) = (length a = 4 \<and> length p = 2)"
| "valid_typed (Inet6 a p s) = (length a = 16 \<and> length p = 2 \<and> length s = 4)"

text \<open>
  The tags are usable when each has the header's width, the two supported ones differ, and
  neither is listed as unsupported.
\<close>

definition wf_tags :: "family_tags \<Rightarrow> bool" where
  "wf_tags T =
     (length (inet4_tag T) = header_size \<and> length (inet6_tag T) = header_size \<and>
      inet4_tag T \<noteq> inet6_tag T \<and>
      inet4_tag T \<notin> set (unsupported_tags T) \<and> inet6_tag T \<notin> set (unsupported_tags T))"

text \<open>
  Modelled from the spec: \<open>decode(buffer, declared_length)\<close>. The declared length must
  reach the header; the tag must be a supported one; the declared length must be exactly
  the size of that family's buffer. A recognized but unsupported family is "address family
  not supported", every other mismatch "invalid argument". Only the first
  \<open>declared_length\<close> bytes of the buffer are read.
\<close>

definition decode :: "family_tags \<Rightarrow> byte list \<Rightarrow> nat \<Rightarrow> codec_error + typed_address" where
  "decode T buffer declared_length =
     (let visible = take declared_length buffer; tag = take header_size visible in
      if declared_length < header_size then Inl Invalid_argument
      else if tag = inet4_tag T then
        (if declared_length = inet4_size
         then Inr (Inet4 (slice header_size 4 visible) (slice (header_size + 4) 2 visible))
         else Inl Invalid_argument)
      else if tag = inet6_tag T then
        (if declared_length = inet6_size
         then Inr (Inet6 (slice header_size 16 visible) (slice (header_size + 16) 2 visible)
                     (slice (header_size + 18) 4 visible))
         else Inl Invalid_argument)
      else if tag \<in> set (unsupported_tags T) then Inl Af_not_supported
      else Inl Invalid_argument)"

text \<open>
  Modelled from the spec: the decoder as \<open>bind\<close> calls it. A codec failure is returned as
  a host-shaped error code (the spec's \<open>from_errno\<close>, a parameter here) and leaves the
  out-parameter as it was; success is code zero.
\<close>

definition sockaddr_to_wasi ::
  "family_tags \<Rightarrow> (codec_error \<Rightarrow> wasi_errno_t) \<Rightarrow> (byte list, typed_address) decoder" where
  "sockaddr_to_wasi T from_errno addr addrlen peer_addr =
     (case decode T addr (unat addrlen) of
        Inl e \<Rightarrow> (from_errno e, peer_addr)
      | Inr a \<Rightarrow> (0, a))"

text \<open>
  Modelled from the spec: the full encoding of a typed address is its tag, then its fields
  in the order of the buffer format.
\<close>

fun wire :: "family_tags \<Rightarrow> typed_address \<Rightarrow> byte list" where
  "wire T (Inet4 a p) = inet4_tag T @ a @ p"
| "wire T (Inet6 a p s) = inet6_tag T @ a @ p @ s"

text \<open>
  Modelled from the spec: \<open>encode(address, caller_buffer, caller_buffer_capacity)\<close>. It
  writes the encoding over the start of the caller's buffer, cut at the capacity, and
  reports the length of the whole encoding. The spec names no condition under which
  \<open>encode\<close> fails, so the model has no failing branch.
\<close>

definition encode ::
  "family_tags \<Rightarrow> typed_address \<Rightarrow> byte list \<Rightarrow> nat \<Rightarrow> codec_error + (byte list \<times> nat)" where
  "encode T a caller_buffer capacity =
     (let full = wire T a; n = min capacity (length full) in
      Inr (take n full @ drop n caller_buffer, length full))"

section \<open>The lock registry\<close>

text \<open>
  The lock pointers that internal/fork_impl.h declares outside
  \<open>__wasilibc_unmodified_upstream\<close>, in the order of their declarations.
\<close>

datatype lockptr =
    at_quick_exit_lockptr
  | atexit_lockptr
  | locale_lockptr
  | random_lockptr
  | sem_open_lockptr
  | stdio_ofl_lockptr
  | syslog_lockptr
  | timezone_lockptr
  | vmlock_lockptr

definition declared_lockptrs :: "lockptr list" where
  "declared_lockptrs =
     [at_quick_exit_lockptr, atexit_lockptr, locale_lockptr, random_lockptr,
      sem_open_lockptr, stdio_ofl_lockptr, syslog_lockptr, timezone_lockptr,
      vmlock_lockptr]"

text \<open>
  Modelled from the spec: the locking primitive and the two registry operations are
  outside the two files covered here (only the declarations above are in them). A lock
  state is the list of held locks, most recent first, with the events so far, oldest
  first. \<open>acquire_all\<close> is the loop over the table from its first index up,
  \<open>release_all\<close> the loop from its last index down.
\<close>

datatype lock_event = Acquired lockptr | Released lockptr












text \<open>
  The order of acquisition, read off a list of events. \<open>position\<close> is the index of a lock
  in the table. \<open>ordered_run\<close> follows the events from a list of held locks: acquiring a
  lock is in order when every lock held at that moment stands before it in the table. The
  result is the list of locks held at the end, or \<open>None\<close> when some lock was acquired out of
  order.
\<close>

fun position :: "lockptr list \<Rightarrow> lockptr \<Rightarrow> nat" where
  "position [] l = 0"
| "position (x # xs) l = (if x = l then 0 else Suc (position xs l))"

fun ordered_run :: "lockptr list \<Rightarrow> lockptr list \<Rightarrow> lock_event list \<Rightarrow> lockptr list option" where
  "ordered_run registry h [] = Some h"
| "ordered_run registry h (Acquired l # es) =
     (if list_all (\<lambda>k. position registry k < position registry l) h
      then ordered_run registry (l # h) es
      else None)"
| "ordered_run registry h (Released l # es) = ordered_run registry (remove1 l h) es"

section \<open>Concrete instances\<close>

text \<open>
  Values for the parameters, used where a statement is evaluated at a concrete input: the
  tags 1, 2 and 3 (little-endian, 3 a recognized but unsupported family), the WASI numbers
  28 and 5 for the codec's two errors, 3 for the host's state error, a host in which every
  handle is already bound, one in which none is, and a process that has made no host call
  yet.
\<close>

definition example_tags :: family_tags where
  "example_tags = \<lparr>inet4_tag = [1, 0], inet6_tag = [2, 0], unsupported_tags = [[3, 0]]\<rparr>"

fun example_code :: "codec_error \<Rightarrow> wasi_errno_t" where
  "example_code Invalid_argument = 28"
| "example_code Af_not_supported = 5"

definition all_bound :: host_sockets where
  "all_bound = (\<lambda>socket. BOUND)"

definition all_unbound :: host_sockets where
  "all_unbound = (\<lambda>socket. UNBOUND)"

definition start :: "c_int \<Rightarrow> host_sockets \<Rightarrow> (host_sockets, typed_address) process" where
  "start e h = \<lparr>errno = e, host = h, sock_bind_calls = []\<rparr>"

definition no_address :: typed_address where
  "no_address = Inet4 [] []"

definition ipv4_buffer :: "byte list" where
  "ipv4_buffer = [1, 0, 192, 168, 0, 1, 31, 144]"

definition ipv6_buffer :: "byte list" where
  "ipv6_buffer = [2, 0] @ replicate 15 0 @ [1] @ [31, 144] @ [0, 0, 0, 0]"

section \<open>Properties of the error conversion\<close>

lemma uint_to_errno: "uint (to_errno e) = uint e"
  unfolding to_errno_def by (rule uint_up_ucast) (simp add: is_up)

lemma to_errno_sint: "sint (to_errno e) = uint e"
proof -
  have "uint e < 2 ^ 16"
    using uint_lt2p [of e] by simp
  then have "uint e < 2 ^ 31"
    by simp
  moreover have "- (2 ^ 31) \<le> (0::int)"
    by simp
  then have "- (2 ^ 31) \<le> uint e"
    using uint_ge_0 [of e] by (rule order_trans)
  ultimately have "signed_take_bit 31 (uint e) = uint e"
    by (intro signed_take_bit_int_eq_self) simp_all
  then show ?thesis
    by (simp add: sint_uint uint_to_errno)
qed

lemma to_errno_eq_iff: "to_errno e = to_errno e' \<longleftrightarrow> e = e'"
proof
  assume "to_errno e = to_errno e'"
  then have "uint (to_errno e) = uint (to_errno e')"
    by simp
  then show "e = e'"
    by (simp add: uint_to_errno word_uint_eq_iff)
qed simp






lemma ipv4_buffer_decodes:
  "sockaddr_to_wasi example_tags example_code ipv4_buffer 8 no_address
     = (0, Inet4 [192, 168, 0, 1] [31, 144])"
  by (simp add: sockaddr_to_wasi_def decode_def example_tags_def header_size_def
      inet4_size_def ipv4_buffer_def slice_def)

lemma bind_ipv4_unbound:
  "bind (sockaddr_to_wasi example_tags example_code) (host_sock_bind 3) no_address 3
     ipv4_buffer 8 (start e all_unbound)
     = (0, (start e all_unbound)
          \<lparr>host := all_unbound(3 := BOUND),
           sock_bind_calls := [(3, Inet4 [192, 168, 0, 1] [31, 144])]\<rparr>)"
  by (simp add: bind_def wasi_sock_bind_def ipv4_buffer_decodes host_sock_bind_def start_def
      all_unbound_def)

text \<open>
  Claim C2. When the decoder returns a non-zero error, \<open>bind\<close> stores that error in
  \<open>errno\<close>, with its number unchanged, and returns -1; nothing else of the process
  changes, so the host operation is not called.
\<close>

theorem bind_decode_failure:
  assumes "dec addr addrlen uninit = (error, peer_addr)" and "error \<noteq> 0"
  shows "bind dec hostop uninit socket addr addrlen w = (- 1, w\<lparr>errno := to_errno error\<rparr>) \<and>
    sint (errno (snd (bind dec hostop uninit socket addr addrlen w))) = uint error \<and>
    sint (to_errno error) = uint error \<and>
    host (snd (bind dec hostop uninit socket addr addrlen w)) = host w \<and>
    sock_bind_calls (snd (bind dec hostop uninit socket addr addrlen w)) = sock_bind_calls w"
  using assms by (simp add: bind_def to_errno_sint)

theorem bind_decode_failure_witness:
  "sockaddr_to_wasi example_tags example_code [2, 0, 192, 168, 0, 1, 31, 144] 8 no_address
     = (28, no_address) \<and>
   (28 :: wasi_errno_t) \<noteq> 0 \<and>
   bind (sockaddr_to_wasi example_tags example_code) (host_sock_bind 3) no_address 3
     [2, 0, 192, 168, 0, 1, 31, 144] 8 (start 0 all_unbound)
     = (- 1, (start 0 all_unbound)\<lparr>errno := to_errno 28\<rparr>) \<and>
   sint (errno (snd (bind (sockaddr_to_wasi example_tags example_code) (host_sock_bind 3)
     no_address 3 [2, 0, 192, 168, 0, 1, 31, 144] 8 (start 0 all_unbound)))) = 28 \<and>
   sock_bind_calls (snd (bind (sockaddr_to_wasi example_tags example_code) (host_sock_bind 3)
     no_address 3 [2, 0, 192, 168, 0, 1, 31, 144] 8 (start 0 all_unbound))) = []"
proof -
  have d: "sockaddr_to_wasi example_tags example_code [2, 0, 192, 168, 0, 1, 31, 144] 8 no_address
      = (28, no_address)"
    by (simp add: sockaddr_to_wasi_def decode_def example_tags_def header_size_def
        inet4_size_def inet6_size_def)
  have n: "(28 :: wasi_errno_t) \<noteq> 0"
    by simp
  show ?thesis
    using d n
      bind_decode_failure [where dec = "sockaddr_to_wasi example_tags example_code"
        and hostop = "host_sock_bind 3" and socket = 3 and w = "start 0 all_unbound", OF d n]
    by (simp add: start_def)
qed

text \<open>
  Claim C4. When decoding succeeds and the host operation reports a non-zero code,
  \<open>bind\<close> returns -1 with exactly that code in \<open>errno\<close>, after one call of the host
  operation.
\<close>

theorem bind_host_error:
  assumes "dec addr addrlen uninit = (0, peer_addr)"
    and "hostop (host w) socket peer_addr = (error, h')" and "error \<noteq> 0"
  shows "bind dec hostop uninit socket addr addrlen w =
      (- 1, w\<lparr>host := h', sock_bind_calls := sock_bind_calls w @ [(socket, peer_addr)],
               errno := to_errno error\<rparr>) \<and>
    sint (to_errno error) = uint error"
  using assms by (simp add: bind_def wasi_sock_bind_def to_errno_sint)

theorem bind_host_error_witness:
  "sockaddr_to_wasi example_tags example_code ipv4_buffer 8 no_address
     = (0, Inet4 [192, 168, 0, 1] [31, 144]) \<and>
   host_sock_bind 3 (host (start 0 all_bound)) 3 (Inet4 [192, 168, 0, 1] [31, 144])
     = (3, all_bound) \<and>
   (3 :: wasi_errno_t) \<noteq> 0 \<and>
   bind (sockaddr_to_wasi example_tags example_code) (host_sock_bind 3) no_address 3
     ipv4_buffer 8 (start 0 all_bound)
     = (- 1, (start 0 all_bound)
          \<lparr>host := all_bound,
           sock_bind_calls := sock_bind_calls (start 0 all_bound) @
             [(3, Inet4 [192, 168, 0, 1] [31, 144])],
           errno := to_errno 3\<rparr>) \<and>
   sint (to_errno 3) = 3"
proof -
  have h: "host_sock_bind 3 (host (start 0 all_bound)) 3 (Inet4 [192, 168, 0, 1] [31, 144])
      = (3, all_bound)"
    by (simp add: host_sock_bind_def start_def all_bound_def)
  have n: "(3 :: wasi_errno_t) \<noteq> 0"
    by simp
  show ?thesis
    using ipv4_buffer_decodes h n
      bind_host_error [where dec = "sockaddr_to_wasi example_tags example_code"
        and hostop = "host_sock_bind 3" and w = "start 0 all_bound",
        OF ipv4_buffer_decodes h n]
    by simp
qed

text \<open>
  Claim C10. When \<open>bind\<close> returns 0, \<open>errno\<close> is what it was before the call.
\<close>

theorem bind_success_errno:
  assumes "fst (bind dec hostop uninit socket addr addrlen w) = 0"
  shows "errno (snd (bind dec hostop uninit socket addr addrlen w)) = errno w"
  using assms by (auto simp: bind_def wasi_sock_bind_def split: prod.splits if_splits)

theorem bind_success_errno_witness:
  "fst (bind (sockaddr_to_wasi example_tags example_code) (host_sock_bind 3) no_address 3
     ipv4_buffer 8 (start 28 all_unbound)) = 0 \<and>
   errno (snd (bind (sockaddr_to_wasi example_tags example_code) (host_sock_bind 3) no_address
     3 ipv4_buffer 8 (start 28 all_unbound))) = 28"
proof -
  have r: "fst (bind (sockaddr_to_wasi example_tags example_code) (host_sock_bind 3)
      no_address 3 ipv4_buffer 8 (start 28 all_unbound)) = 0"
    by (simp add: bind_ipv4_unbound)
  show ?thesis
    using r bind_success_errno [OF r] by (simp add: start_def)
qed



text \<open>
  Claim C1, as amended. On a handle that the host has in BOUND state \<open>bind\<close> returns -1. The
  error is the host's state error when the address decodes; when it does not, the error is
  the decoder's and the host operation is not called.
\<close>

theorem bind_on_bound_handle:
  assumes "host w socket = BOUND" and "state_error \<noteq> 0"
  shows "fst (bind dec (host_sock_bind state_error) uninit socket addr addrlen w) = - 1 \<and>
    errno (snd (bind dec (host_sock_bind state_error) uninit socket addr addrlen w)) =
      (if fst (dec addr addrlen uninit) = 0 then to_errno state_error
       else to_errno (fst (dec addr addrlen uninit))) \<and>
    sock_bind_calls (snd (bind dec (host_sock_bind state_error) uninit socket addr addrlen w)) =
      (if fst (dec addr addrlen uninit) = 0
       then sock_bind_calls w @ [(socket, snd (dec addr addrlen uninit))]
       else sock_bind_calls w)"
  using assms
  by (auto simp: bind_def wasi_sock_bind_def host_sock_bind_def split: prod.splits)

theorem bind_on_bound_handle_witness:
  "host (start 0 all_bound) 3 = BOUND \<and> (3 :: wasi_errno_t) \<noteq> 0 \<and>
   fst (bind (sockaddr_to_wasi example_tags example_code) (host_sock_bind 3) no_address 3
     ipv4_buffer 8 (start 0 all_bound)) = - 1 \<and>
   errno (snd (bind (sockaddr_to_wasi example_tags example_code) (host_sock_bind 3) no_address
     3 ipv4_buffer 8 (start 0 all_bound))) = to_errno 3 \<and>
   sock_bind_calls (snd (bind (sockaddr_to_wasi example_tags example_code) (host_sock_bind 3)
     no_address 3 ipv4_buffer 8 (start 0 all_bound))) = [(3, Inet4 [192, 168, 0, 1] [31, 144])]"
proof -
  have b: "host (start 0 all_bound) 3 = BOUND"
    by (simp add: start_def all_bound_def)
  have n: "(3 :: wasi_errno_t) \<noteq> 0"
    by simp
  show ?thesis
    using b n
      bind_on_bound_handle [where dec = "sockaddr_to_wasi example_tags example_code"
        and uninit = no_address and addr = ipv4_buffer and addrlen = 8, OF b n]
    by (simp add: ipv4_buffer_decodes start_def)
qed

text \<open>
  Claim C1 as stated fails: on a bound handle, an empty address buffer makes \<open>bind\<close> fail
  with the decoder's "invalid argument", which is not the host's state error, and the host
  operation is never called.
\<close>

theorem bind_bound_malformed_counterexample:
  "host (start 0 all_bound) 3 = BOUND \<and>
   fst (bind (sockaddr_to_wasi example_tags example_code) (host_sock_bind 3) no_address 3 []
     0 (start 0 all_bound)) = - 1 \<and>
   errno (snd (bind (sockaddr_to_wasi example_tags example_code) (host_sock_bind 3) no_address
     3 [] 0 (start 0 all_bound))) = to_errno (example_code Invalid_argument) \<and>
   errno (snd (bind (sockaddr_to_wasi example_tags example_code) (host_sock_bind 3) no_address
     3 [] 0 (start 0 all_bound))) \<noteq> to_errno 3 \<and>
   sock_bind_calls (snd (bind (sockaddr_to_wasi example_tags example_code) (host_sock_bind 3)
     no_address 3 [] 0 (start 0 all_bound))) = []"
  by (simp add: bind_def sockaddr_to_wasi_def decode_def header_size_def start_def
      all_bound_def to_errno_eq_iff)

section \<open>Properties of the address codec\<close>

lemma take3_split:
  "take a xs @ take b (drop a xs) @ take c (drop (a + b) xs) = take (a + b + c) xs"
proof -
  have "take (a + b + c) xs = take (a + b) xs @ take c (drop (a + b) xs)"
    by (rule take_add)
  moreover have "take (a + b) xs = take a xs @ take b (drop a xs)"
    by (rule take_add)
  ultimately show ?thesis
    by simp
qed

lemma take4_split:
  "take a xs @ take b (drop a xs) @ take c (drop (a + b) xs) @ take d (drop (a + b + c) xs)
     = take (a + b + c + d) xs"
proof -
  have "take (a + b + c + d) xs = take (a + b + c) xs @ take d (drop (a + b + c) xs)"
    by (rule take_add)
  then show ?thesis
    using take3_split [of a xs b c] by simp
qed

lemma decode_reads_visible: "decode T buffer n = decode T (take n buffer) n"
  by (simp add: decode_def)

lemma wire_of_decode:
  assumes "decode T x n = Inr a" and "n \<le> length x"
  shows "wire T a = take n x"
proof -
  have four: "take header_size v @ slice header_size 4 v @ slice (header_size + 4) 2 v
      = take inet4_size v" for v :: "byte list"
    using take3_split [of header_size v 4 2] by (simp add: slice_def inet4_size_def)
  have six: "take header_size v @ slice header_size 16 v @ slice (header_size + 16) 2 v @
      slice (header_size + 18) 4 v = take inet6_size v" for v :: "byte list"
    using take4_split [of header_size v 16 2 4]
    by (simp add: slice_def inet6_size_def header_size_def)
  from assms show ?thesis
    using four [of "take n x"] six [of "take n x"]
    by (auto simp: decode_def Let_def split: if_splits)
qed

lemma decode_valid:
  assumes "decode T x n = Inr a" and "n \<le> length x"
  shows "valid_typed a"
  using assms
  by (auto simp: decode_def Let_def slice_def header_size_def inet4_size_def inet6_size_def
      split: if_splits)

lemma decode_wire:
  assumes "wf_tags T" and "valid_typed a"
  shows "decode T (wire T a) (length (wire T a)) = Inr a"
proof (cases a)
  case (Inet4 h p)
  with assms show ?thesis
    by (simp add: decode_def wf_tags_def slice_def inet4_size_def header_size_def)
next
  case (Inet6 h p s)
  with assms show ?thesis
    by (auto simp: decode_def Let_def wf_tags_def slice_def inet4_size_def inet6_size_def
        header_size_def)
qed

lemma wf_example_tags: "wf_tags example_tags"
  by (simp add: wf_tags_def example_tags_def header_size_def)

lemma ipv4_decode: "decode example_tags ipv4_buffer 8 = Inr (Inet4 [192, 168, 0, 1] [31, 144])"
  by (simp add: decode_def example_tags_def header_size_def inet4_size_def ipv4_buffer_def
      slice_def)

text \<open>
  Claim C6. \<open>decode\<close> fails with "address family not supported" exactly when the declared
  length reaches the header and the tag is one of a recognized but unsupported family. It
  fails with "invalid argument" exactly on a mismatch: a declared length below the header,
  a supported tag with a declared length that is not the size of its family's buffer, or a
  tag that is neither supported nor recognized. The two errors are different values.
\<close>

theorem decode_error_classes:
  assumes "wf_tags T"
  shows "(let tag = take header_size (take n b) in
      (decode T b n = Inl Af_not_supported \<longleftrightarrow>
         header_size \<le> n \<and> tag \<in> set (unsupported_tags T)) \<and>
      (decode T b n = Inl Invalid_argument \<longleftrightarrow>
         n < header_size \<or>
         tag = inet4_tag T \<and> n \<noteq> inet4_size \<or>
         tag = inet6_tag T \<and> n \<noteq> inet6_size \<or>
         tag \<noteq> inet4_tag T \<and> tag \<noteq> inet6_tag T \<and> tag \<notin> set (unsupported_tags T))) \<and>
    Invalid_argument \<noteq> Af_not_supported"
  using assms by (auto simp: decode_def Let_def wf_tags_def)

theorem decode_error_classes_witness:
  "wf_tags example_tags \<and>
   decode example_tags [] 0 = Inl Invalid_argument \<and>
   decode example_tags [9, 0, 192, 168, 0, 1, 31, 144] 8 = Inl Invalid_argument \<and>
   decode example_tags [2, 0, 192, 168, 0, 1, 31, 144] 8 = Inl Invalid_argument \<and>
   decode example_tags [3, 0, 192, 168, 0, 1, 31, 144] 8 = Inl Af_not_supported"
  using wf_example_tags
    decode_error_classes [OF wf_example_tags, of 0 "[]"]
    decode_error_classes [OF wf_example_tags, of 8 "[9, 0, 192, 168, 0, 1, 31, 144]"]
    decode_error_classes [OF wf_example_tags, of 8 "[2, 0, 192, 168, 0, 1, 31, 144]"]
    decode_error_classes [OF wf_example_tags, of 8 "[3, 0, 192, 168, 0, 1, 31, 144]"]
  by (simp add: Let_def example_tags_def header_size_def inet4_size_def inet6_size_def)

text \<open>
  Claim C7. A buffer that decodes to a typed address is written back unchanged, with its
  length reported, when that address is encoded into a buffer of sufficient capacity; and
  every valid IPv4 or IPv6 typed address is the decoding of its own encoding, which
  \<open>encode\<close> writes in full when the capacity suffices.
\<close>

theorem encode_decode_roundtrip:
  "(decode T x n = Inr a \<and> n \<le> length x \<and> n \<le> capacity \<longrightarrow>
      encode T a caller_buffer capacity = Inr (take n x @ drop n caller_buffer, n)) \<and>
   (wf_tags T \<and> valid_typed a' \<and> length (wire T a') \<le> capacity \<longrightarrow>
      decode T (wire T a') (length (wire T a')) = Inr a' \<and>
      encode T a' caller_buffer capacity =
        Inr (wire T a' @ drop (length (wire T a')) caller_buffer, length (wire T a')))"
proof (intro conjI impI)
  assume h: "decode T x n = Inr a \<and> n \<le> length x \<and> n \<le> capacity"
  then have w: "wire T a = take n x"
    by (simp add: wire_of_decode)
  with h have l: "length (wire T a) = n"
    by simp
  from h have "min capacity n = n"
    by simp
  with l show "encode T a caller_buffer capacity = Inr (take n x @ drop n caller_buffer, n)"
    unfolding encode_def Let_def using w by simp
next
  assume "wf_tags T \<and> valid_typed a' \<and> length (wire T a') \<le> capacity"
  then show "decode T (wire T a') (length (wire T a')) = Inr a'"
    by (simp add: decode_wire)
next
  assume "wf_tags T \<and> valid_typed a' \<and> length (wire T a') \<le> capacity"
  then show "encode T a' caller_buffer capacity =
      Inr (wire T a' @ drop (length (wire T a')) caller_buffer, length (wire T a'))"
    by (simp add: encode_def Let_def min_absorb2)
qed

theorem encode_decode_roundtrip_witness:
  "decode example_tags ipv4_buffer 8 = Inr (Inet4 [192, 168, 0, 1] [31, 144]) \<and>
   encode example_tags (Inet4 [192, 168, 0, 1] [31, 144]) (replicate 16 255) 16
     = Inr (ipv4_buffer @ replicate 8 255, 8) \<and>
   wf_tags example_tags \<and> valid_typed (Inet6 (replicate 15 0 @ [1]) [31, 144] [0, 0, 0, 0]) \<and>
   decode example_tags ipv6_buffer 24 = Inr (Inet6 (replicate 15 0 @ [1]) [31, 144] [0, 0, 0, 0]) \<and>
   encode example_tags (Inet6 (replicate 15 0 @ [1]) [31, 144] [0, 0, 0, 0]) (replicate 24 255) 24
     = Inr (ipv6_buffer, 24)"
proof -
  have l: "length ipv4_buffer = 8"
    by (simp add: ipv4_buffer_def)
  have v: "valid_typed (Inet6 (replicate 15 0 @ [1]) [31, 144] [0, 0, 0, 0])"
    by simp
  have w: "wire example_tags (Inet6 (replicate 15 0 @ [1]) [31, 144] [0, 0, 0, 0]) = ipv6_buffer"
    by (simp add: example_tags_def ipv6_buffer_def)
  have l6: "length ipv6_buffer = 24"
    by (simp add: ipv6_buffer_def)
  show ?thesis
    using ipv4_decode l v wf_example_tags
      encode_decode_roundtrip [of example_tags ipv4_buffer 8 "Inet4 [192, 168, 0, 1] [31, 144]"
        16 "replicate 16 255" "Inet6 (replicate 15 0 @ [1]) [31, 144] [0, 0, 0, 0]"]
      encode_decode_roundtrip [of example_tags ipv4_buffer 8 "Inet4 [192, 168, 0, 1] [31, 144]"
        24 "replicate 24 255" "Inet6 (replicate 15 0 @ [1]) [31, 144] [0, 0, 0, 0]"]
    by (simp add: w l6 del: wire.simps)
qed

text \<open>
  Claim C8. When the capacity is below the size of the encoding, \<open>encode\<close> succeeds: it
  overwrites exactly the first \<open>capacity\<close> bytes of the caller's buffer with the start of
  the encoding (tag first), leaves the rest of the buffer as it was, and reports the size
  of the whole encoding.
\<close>

theorem encode_truncation:
  assumes "capacity < length (wire T a)" and "capacity \<le> length caller_buffer"
  shows "encode T a caller_buffer capacity =
      Inr (take capacity (wire T a) @ drop capacity caller_buffer, length (wire T a)) \<and>
    length (take capacity (wire T a)) = capacity \<and>
    length (take capacity (wire T a) @ drop capacity caller_buffer) = length caller_buffer"
  using assms by (simp add: encode_def Let_def min_def)

theorem encode_truncation_witness:
  "(8 :: nat) < length (wire example_tags (Inet6 (replicate 15 0 @ [1]) [31, 144] [0, 0, 0, 0])) \<and>
   (8 :: nat) \<le> length (replicate 8 (255 :: byte)) \<and>
   encode example_tags (Inet6 (replicate 15 0 @ [1]) [31, 144] [0, 0, 0, 0]) (replicate 8 255) 8
     = Inr ([2, 0, 0, 0, 0, 0, 0, 0], 24)"
proof -
  have w: "wire example_tags (Inet6 (replicate 15 0 @ [1]) [31, 144] [0, 0, 0, 0]) = ipv6_buffer"
    by (simp add: example_tags_def ipv6_buffer_def)
  have c: "(8 :: nat) < length (wire example_tags
      (Inet6 (replicate 15 0 @ [1]) [31, 144] [0, 0, 0, 0]))"
    by (simp add: w ipv6_buffer_def del: wire.simps)
  have b: "(8 :: nat) \<le> length (replicate 8 (255 :: byte))"
    by simp
  have t: "take 8 ipv6_buffer = [2, 0, 0, 0, 0, 0, 0, 0]"
    by (simp add: ipv6_buffer_def eval_nat_numeral)
  have l6: "length ipv6_buffer = 24"
    by (simp add: ipv6_buffer_def)
  show ?thesis
    using c b encode_truncation [OF c b] by (simp add: w t l6 del: wire.simps)
qed

section \<open>Properties of the lock registry\<close>













text \<open>
  The check of the order is not empty: taking \<open>vmlock_lockptr\<close> and then
  \<open>locale_lockptr\<close>, against the order of the table, is refused.
\<close>

lemma ordered_run_rejects_reverse:
  "ordered_run declared_lockptrs [] [Acquired vmlock_lockptr, Acquired locale_lockptr] = None"
  by (simp add: declared_lockptrs_def)



end
